theory Spec2Isabelle
  imports Main "HOL-Library.Word"
begin

section \<open>Bytes and the WAV container\<close>

text \<open>
  Python \<open>bytes\<close> are lists of 8-bit words. \<open>AudioRecorder._frames_to_wav\<close> hands the
  joined frames to the standard library's \<open>wave\<close> writer, configured with the class
  constants of \<open>AudioRecorder\<close>. The writer is library code; it is modelled here by what it
  leaves in the buffer once the \<open>with\<close> block closes it: the 44 byte RIFF/WAVE header of a
  PCM file, with the final data length patched in, followed by the data as given. The two
  length fields of the header are unsigned 32-bit integers packed with \<open>struct.pack('<L', ...)\<close>,
  which raises \<open>struct.error\<close> for a number above \<open>2^32 - 1\<close>; the larger of the two fields
  holds \<open>36 + datalength\<close>.
\<close>

type_synonym byte = "8 word"
type_synonym bytes = "byte list"

datatype error = DeviceError | StructError | MarkupError

definition ascii :: "string \<Rightarrow> bytes" where
  "ascii cs = map (\<lambda>c. of_nat (of_char c)) cs"

definition u16le :: "nat \<Rightarrow> bytes" where
  "u16le n = [of_nat (n mod 256), of_nat (n div 256 mod 256)]"

definition u32le :: "nat \<Rightarrow> bytes" where
  "u32le n = [of_nat (n mod 256), of_nat (n div 256 mod 256),
              of_nat (n div 65536 mod 256), of_nat (n div 16777216 mod 256)]"

definition WAVE_FORMAT_PCM :: nat where
  "WAVE_FORMAT_PCM = 1"

definition wave_header :: "nat \<Rightarrow> nat \<Rightarrow> nat \<Rightarrow> nat \<Rightarrow> bytes" where
  "wave_header nchannels sampwidth framerate datalength =
     ascii ''RIFF'' @ u32le (36 + datalength) @ ascii ''WAVE'' @ ascii ''fmt '' @
     u32le 16 @ u16le WAVE_FORMAT_PCM @ u16le nchannels @ u32le framerate @
     u32le (nchannels * framerate * sampwidth) @ u16le (nchannels * sampwidth) @
     u16le (sampwidth * 8) @ ascii ''data'' @ u32le datalength"

definition wave_write :: "nat \<Rightarrow> nat \<Rightarrow> nat \<Rightarrow> bytes \<Rightarrow> error + bytes" where
  "wave_write nchannels sampwidth framerate data =
     (if 36 + length data < 2 ^ 32
      then Inr (wave_header nchannels sampwidth framerate (length data) @ data)
      else Inl StructError)"

definition WAVE_HEADER_SIZE :: nat where
  "WAVE_HEADER_SIZE = 44"

text \<open>The payload of a container is what follows its header.\<close>

definition wav_payload :: "bytes \<Rightarrow> bytes" where
  "wav_payload wav = drop WAVE_HEADER_SIZE wav"

section \<open>AudioRecorder (recorder.py)\<close>

definition SAMPLE_RATE :: nat where
  "SAMPLE_RATE = 16000"

definition CHANNELS :: nat where
  "CHANNELS = 1"

definition CHUNK_SIZE :: nat where
  "CHUNK_SIZE = 1024"

text \<open>\<open>self._audio.get_sample_size(pyaudio.paInt16)\<close>: two bytes per sample.\<close>

definition SAMPLE_WIDTH :: nat where
  "SAMPLE_WIDTH = 2"

text \<open>
  The stream is opened with \<open>frames_per_buffer = CHUNK_SIZE\<close>, so the device layer calls
  \<open>_audio_callback\<close> with exactly that many frames each time: \<open>CHUNK_SIZE\<close> frames of
  \<open>CHANNELS\<close> samples of \<open>SAMPLE_WIDTH\<close> bytes.
\<close>

definition CHUNK_BYTES :: nat where
  "CHUNK_BYTES = CHUNK_SIZE * CHANNELS * SAMPLE_WIDTH"

text \<open>
  The fields of \<open>AudioRecorder\<close> that its methods read and write. \<open>stream\<close> is true when
  \<open>self._stream\<close> holds an open input stream and false when it is \<open>None\<close>. The lock only
  serialises \<open>start\<close> and \<open>stop\<close>; each method is one atomic step of the model.
\<close>

record recorder =
  frames :: "bytes list"
  is_recording :: bool
  stream :: bool

definition recorder_init :: recorder where
  "recorder_init = \<lparr>frames = [], is_recording = False, stream = False\<rparr>"

text \<open>
  A method returns the recorder after the call, the statuses it passed to
  \<open>_notify_status\<close> (in order), and its result: \<open>Inl\<close> an exception that left the method,
  \<open>Inr\<close> the returned value.

  \<open>start\<close>, lines 45-63. The argument \<open>dev\<close> says whether the device layer
  (\<open>self._audio.open\<close> and \<open>start_stream\<close>) succeeds; when it raises, the two assignments
  before it have already happened and no status is notified.
\<close>

definition start :: "bool \<Rightarrow> recorder \<Rightarrow> recorder \<times> string list \<times> (error + unit)" where
  "start dev r =
     (if is_recording r then (r, [], Inr ())
      else
        let r1 = r\<lparr>frames := [], is_recording := True\<rparr> in
        if dev then (r1\<lparr>stream := True\<rparr>, [''recording''], Inr ())
        else (r1, [], Inl DeviceError))"

text \<open>\<open>_audio_callback\<close>, lines 65-71: one chunk delivered by the device.\<close>

definition audio_callback :: "bytes \<Rightarrow> recorder \<Rightarrow> recorder" where
  "audio_callback in_data r =
     (if is_recording r then r\<lparr>frames := frames r @ [in_data]\<rparr> else r)"

text \<open>\<open>_frames_to_wav\<close>, lines 96-106.\<close>

definition frames_to_wav :: "recorder \<Rightarrow> error + bytes" where
  "frames_to_wav r = wave_write CHANNELS SAMPLE_WIDTH SAMPLE_RATE (concat (frames r))"

text \<open>
  \<open>stop\<close>, lines 73-94. The flag is cleared, the stream closed and \<open>stopped\<close> notified before
  the frames are encoded, so all three persist when the encoding raises.
\<close>

definition stop :: "recorder \<Rightarrow> recorder \<times> string list \<times> (error + bytes)" where
  "stop r =
     (if \<not> is_recording r then (r, [], Inr [])
      else
        let r1 = r\<lparr>is_recording := False\<rparr>;
            r2 = (if stream r1 then r1\<lparr>stream := False\<rparr> else r1)
        in (r2, [''stopped''], frames_to_wav r2))"

text \<open>
  \<open>save_to_file\<close>, lines 108-117: the result is the content written to the file.
\<close>

definition save_to_file :: "recorder \<Rightarrow> error + bytes" where
  "save_to_file r = frames_to_wav r"

text \<open>The chunks the device delivers, one callback each, in delivery order.\<close>

definition deliver :: "bytes list \<Rightarrow> recorder \<Rightarrow> recorder" where
  "deliver chunks r = foldl (\<lambda>r c. audio_callback c r) r chunks"

section \<open>What the front ends share\<close>

text \<open>
  The speech engine, the clipboard and the console are collaborators outside the program;
  \<open>world\<close> gathers what they do when called.
  \<^item> \<open>loads\<close>: constructing the \<open>Transcriber\<close>, should that be needed, raises an exception
    with the given message (\<open>Some\<close>) or succeeds (\<open>None\<close>).
  \<^item> \<open>engine\<close>: \<open>transcribe(audio)\<close> raises an exception with a message (\<open>Inl\<close>) or returns a
    result whose \<open>text\<close> is the \<open>Inr\<close> value.
  \<^item> \<open>clipboard\<close>: \<open>pyperclip.copy(text)\<close> raises an exception with the given message (\<open>Some\<close>)
    or accepts the text (\<open>None\<close>).
  \<^item> \<open>renders\<close>: whether the console renders the markup of a line given to
    \<open>console.print\<close>. The console parses square-bracket tags in the line and raises a markup
    error for a line it cannot render, for instance one with a closing tag that matches no
    open tag.

  A front end's state carries the trace of the calls it has made on them and on its
  recorder, oldest first: \<open>RecorderStart\<close> and \<open>RecorderStop\<close> are invocations of
  \<open>AudioRecorder.start\<close> and \<open>stop\<close>, \<open>Gateway a\<close> is \<open>transcriber.transcribe(a)\<close>,
  \<open>Copy t\<close> is \<open>pyperclip.copy(t)\<close>, and \<open>Print m\<close> is a line the console has written.
\<close>

type_synonym gateway = "bytes \<Rightarrow> string + string"

record world =
  loads :: "string option"
  engine :: gateway
  clipboard :: "string \<Rightarrow> string option"
  renders :: "string \<Rightarrow> bool"

datatype event = RecorderStart | RecorderStop | Gateway bytes | Copy string | Print string

fun gateway_calls :: "event list \<Rightarrow> bytes list" where
  "gateway_calls [] = []"
| "gateway_calls (Gateway a # es) = a # gateway_calls es"
| "gateway_calls (e # es) = gateway_calls es"

fun recorder_starts :: "event list \<Rightarrow> nat" where
  "recorder_starts [] = 0"
| "recorder_starts (RecorderStart # es) = Suc (recorder_starts es)"
| "recorder_starts (e # es) = recorder_starts es"

definition NO_AUDIO :: string where
  "NO_AUDIO = ''(no audio captured)''"

section \<open>The terminal front end: ListenApp (cli.py)\<close>

text \<open>
  The keys the listener delivers: the two control keys, the space bar, and any other key.
\<close>

datatype key = Ctrl_l | Ctrl_r | Space | Other_key

text \<open>
  The fields of \<open>ListenApp\<close>. \<open>transcriber\<close> is true once \<open>self._transcriber\<close> is loaded.
  \<open>started_threads\<close> counts the threads that a handler has started on
  \<open>_stop_recording_and_transcribe\<close> and that have not begun to run.
\<close>

record app =
  toggle_mode :: bool
  auto_copy :: bool
  recording :: bool
  processing :: bool
  last_transcription :: string
  recorder_of :: recorder
  transcriber :: bool
  ctrl_pressed :: bool
  space_pressed :: bool
  started_threads :: nat
  trace :: "event list"

text \<open>\<open>__init__\<close>, lines 37-66.\<close>

definition app_init :: "bool \<Rightarrow> bool \<Rightarrow> app" where
  "app_init toggle copy =
     \<lparr>toggle_mode = toggle, auto_copy = copy, recording = False, processing = False,
      last_transcription = [], recorder_of = recorder_init, transcriber = False,
      ctrl_pressed = False, space_pressed = False, started_threads = 0, trace = []\<rparr>"

text \<open>
  \<open>_on_recording_status\<close>, lines 80-83, is the recorder's status callback; \<open>notify\<close> runs it
  for the statuses a recorder method has reported.
\<close>

definition on_recording_status :: "string \<Rightarrow> app \<Rightarrow> app" where
  "on_recording_status status s = s\<lparr>recording := (status = ''recording'')\<rparr>"

definition notify :: "string list \<Rightarrow> app \<Rightarrow> app" where
  "notify notes s = foldl (\<lambda>s n. on_recording_status n s) s notes"

text \<open>
  \<open>_get_transcriber\<close>, lines 68-78. The second component is the message of the exception
  that leaves the call, if any. The two informational console lines are left out; their
  markup is fixed.
\<close>

definition get_transcriber :: "world \<Rightarrow> app \<Rightarrow> app \<times> string option" where
  "get_transcriber w s =
     (if \<not> transcriber s then
        (case loads w of Some msg \<Rightarrow> (s, Some msg) | None \<Rightarrow> (s\<lparr>transcriber := True\<rparr>, None))
      else (s, None))"

text \<open>
  \<open>_start_recording\<close>, lines 116-119. The second component is the exception that leaves
  the call, if any.
\<close>

definition start_recording :: "bool \<Rightarrow> app \<Rightarrow> app \<times> error option" where
  "start_recording dev s =
     (if \<not> recording s \<and> \<not> processing s then
        (case start dev (recorder_of s) of
           (r, notes, res) \<Rightarrow>
             (notify notes (s\<lparr>recorder_of := r, trace := trace s @ [RecorderStart]\<rparr>),
              case res of Inl e \<Rightarrow> Some e | Inr u \<Rightarrow> None))
      else (s, None))"

text \<open>
  \<open>_stop_recording_and_transcribe\<close>, lines 121-146, runs on a thread of its own, beside
  the handlers and beside other threads started on it. It is given in parts, split where
  the claims need to look at the state in between:
  \<^item> \<open>worker_begin\<close>, lines 123-125: the test of \<open>_recording\<close> and the setting of
    \<open>_processing\<close>; the boolean says whether the task goes on.
  \<^item> \<open>worker_stop\<close>, lines 128-133 and 140-146: from the call of \<open>stop\<close> to the call of
    \<open>transcriber.transcribe\<close>, or to the end of the task if that call is not made.
  \<^item> \<open>worker_leave\<close>, lines 133-146: from the return or the exception of
    \<open>transcriber.transcribe\<close> to the end of the task.

  \<open>task\<close> says where the task stands: it has returned, an exception has left it, or it is
  blocked in the engine on the given audio. \<open>finish\<close> is the closing assignment of lines
  145-146. It is not in a \<open>finally\<close> clause, so an exception that leaves the \<open>except\<close> clause
  skips it.

  \<open>handle_exception\<close> is the \<open>except\<close> clause, lines 140-141, followed by the closing
  assignment: the message is put between \<open>[red]\<close> tags and printed as markup
  (\<open>error_line\<close>); when the console cannot render the line, the markup error leaves the
  task. \<open>cli_has_audio\<close> is the test of line 130.
\<close>

datatype task = Returned | Escaped error | Blocked bytes

definition finish :: "app \<Rightarrow> app" where
  "finish s = s\<lparr>processing := False\<rparr>"

definition error_line :: "string \<Rightarrow> string" where
  "error_line msg = ''[red]Error: '' @ msg @ ''[/red]''"

definition handle_exception :: "world \<Rightarrow> string \<Rightarrow> app \<Rightarrow> app \<times> error option" where
  "handle_exception w msg s =
     (if renders w (error_line msg)
      then (finish (s\<lparr>trace := trace s @ [Print (error_line msg)]\<rparr>), None)
      else (s, Some MarkupError))"

definition cli_has_audio :: "bytes \<Rightarrow> bool" where
  "cli_has_audio audio_data = (length audio_data > 1000)"

definition worker_begin :: "app \<Rightarrow> app \<times> bool" where
  "worker_begin s = (if recording s then (s\<lparr>processing := True\<rparr>, True) else (s, False))"

definition worker_stop :: "world \<Rightarrow> app \<Rightarrow> app \<times> task" where
  "worker_stop w s =
     (case stop (recorder_of s) of
        (r, notes, res) \<Rightarrow>
          let s2 = notify notes (s\<lparr>recorder_of := r, trace := trace s @ [RecorderStop]\<rparr>) in
          (case res of
             Inl e \<Rightarrow> (s2, Escaped e)
           | Inr audio_data \<Rightarrow>
               if cli_has_audio audio_data then
                 (case get_transcriber w s2 of
                    (s3, Some msg) \<Rightarrow>
                      (case handle_exception w msg s3 of
                         (s4, None) \<Rightarrow> (s4, Returned)
                       | (s4, Some e) \<Rightarrow> (s4, Escaped e))
                  | (s3, None) \<Rightarrow>
                      (s3\<lparr>trace := trace s3 @ [Gateway audio_data]\<rparr>, Blocked audio_data))
               else (finish (s2\<lparr>last_transcription := NO_AUDIO\<rparr>), Returned)))"

definition worker_enter :: "world \<Rightarrow> app \<Rightarrow> app \<times> task" where
  "worker_enter w s =
     (case worker_begin s of
        (s1, True) \<Rightarrow> worker_stop w s1
      | (s1, False) \<Rightarrow> (s1, Returned))"

definition worker_leave :: "world \<Rightarrow> string + string \<Rightarrow> app \<Rightarrow> app \<times> error option" where
  "worker_leave w outcome s =
     (case outcome of
        Inr text \<Rightarrow>
          let s1 = s\<lparr>last_transcription := text\<rparr> in
          if auto_copy s1 \<and> text \<noteq> [] then
            let s2 = s1\<lparr>trace := trace s1 @ [Copy text]\<rparr> in
            (case clipboard w text of
               None \<Rightarrow> (finish s2, None)
             | Some msg \<Rightarrow> handle_exception w msg s2)
          else (finish s1, None)
      | Inl msg \<Rightarrow> handle_exception w msg s)"

definition stop_recording_and_transcribe :: "world \<Rightarrow> app \<Rightarrow> app \<times> error option" where
  "stop_recording_and_transcribe w s =
     (case worker_enter w s of
        (s1, Returned) \<Rightarrow> (s1, None)
      | (s1, Escaped e) \<Rightarrow> (s1, Some e)
      | (s1, Blocked audio_data) \<Rightarrow> worker_leave w (engine w audio_data) s1)"

text \<open>
  \<open>threading.Thread(target=self._stop_recording_and_transcribe, daemon=True).start()\<close>
\<close>

definition start_thread :: "app \<Rightarrow> app" where
  "start_thread s = s\<lparr>started_threads := Suc (started_threads s)\<rparr>"

text \<open>
  \<open>_on_key_press\<close>, lines 148-170, and \<open>_on_key_release\<close>, lines 172-190. Every value of
  \<open>key\<close> can be compared, so the \<open>AttributeError\<close> handlers have nothing to catch; an
  exception of \<open>start\<close> is not an \<open>AttributeError\<close> and leaves the handler.
\<close>

definition on_key_press :: "bool \<Rightarrow> key \<Rightarrow> app \<Rightarrow> app \<times> error option" where
  "on_key_press dev k s =
     (let s1 = (if k = Ctrl_l \<or> k = Ctrl_r then s\<lparr>ctrl_pressed := True\<rparr>
                else if k = Space then s\<lparr>space_pressed := True\<rparr>
                else s)
      in
        if ctrl_pressed s1 \<and> space_pressed s1 then
          (if toggle_mode s1 then
             (if recording s1 then (start_thread s1, None) else start_recording dev s1)
           else start_recording dev s1)
        else (s1, None))"

definition on_key_release :: "key \<Rightarrow> app \<Rightarrow> app" where
  "on_key_release k s =
     (if k = Ctrl_l \<or> k = Ctrl_r then
        let s1 = s\<lparr>ctrl_pressed := False\<rparr> in
        if \<not> toggle_mode s1 \<and> recording s1 then start_thread s1 else s1
      else if k = Space then
        let s1 = s\<lparr>space_pressed := False\<rparr> in
        if \<not> toggle_mode s1 \<and> recording s1 then start_thread s1 else s1
      else s)"

section \<open>The desktop front end: ListenGUI (gui.py)\<close>

text \<open>
  \<open>str.strip()\<close> removes leading and trailing whitespace; these are the characters of
  \<open>char\<close> that Python counts as whitespace.
\<close>

definition is_space :: "char \<Rightarrow> bool" where
  "is_space c = ((of_char c :: nat) \<in> {9, 10, 11, 12, 13, 28, 29, 30, 31, 32, 133, 160})"

definition strip :: "string \<Rightarrow> string" where
  "strip t = rev (dropWhile is_space (rev (dropWhile is_space t)))"

definition startswith :: "string \<Rightarrow> string \<Rightarrow> bool" where
  "startswith t p = (take (length p) t = p)"

text \<open>
  The fields of \<open>ListenGUI\<close> and the widget state that the claims look at: the
  sensitivity of the record button and the text of the result label. Button captions, CSS
  classes, the status label and the waveform are presentation only and are left out.
  \<open>gui_threads\<close> counts the threads started on \<open>_transcribe_audio\<close> that have not begun
  to run.
\<close>

record gui =
  gui_auto_copy :: bool
  gui_recording :: bool
  gui_processing :: bool
  gui_recorder :: recorder
  gui_transcriber :: bool
  button_sensitive :: bool
  result_label :: string
  gui_threads :: nat
  gui_trace :: "event list"

text \<open>
  \<open>_start_recording\<close>, lines 221-233. The recorder's status callback of this front end,
  \<open>_on_recording_status\<close>, does nothing, so the statuses are dropped.
\<close>

definition gui_start_recording :: "bool \<Rightarrow> gui \<Rightarrow> gui \<times> error option" where
  "gui_start_recording dev g =
     (let g1 = g\<lparr>gui_recording := True, result_label := []\<rparr> in
      case start dev (gui_recorder g1) of
        (r, notes, res) \<Rightarrow>
          (g1\<lparr>gui_recorder := r, gui_trace := gui_trace g1 @ [RecorderStart]\<rparr>,
           case res of Inl e \<Rightarrow> Some e | Inr u \<Rightarrow> None))"

text \<open>\<open>_stop_recording\<close>, lines 239-250.\<close>

definition gui_stop_recording :: "gui \<Rightarrow> gui" where
  "gui_stop_recording g =
     g\<lparr>gui_recording := False, gui_processing := True, button_sensitive := False,
       gui_threads := Suc (gui_threads g)\<rparr>"

text \<open>\<open>_on_record_clicked\<close>, lines 211-219.\<close>

definition on_record_clicked :: "bool \<Rightarrow> gui \<Rightarrow> gui \<times> error option" where
  "on_record_clicked dev g =
     (if gui_processing g then (g, None)
      else if \<not> gui_recording g then gui_start_recording dev g
      else (gui_stop_recording g, None))"

text \<open>
  \<open>_transcribe_audio\<close>, lines 252-269. The result is \<open>Inr\<close> the text handed to
  \<open>_on_transcription_complete\<close> through \<open>GLib.idle_add\<close>, or \<open>Inl\<close> an exception that left
  the thread before anything was scheduled. Calling \<open>transcribe\<close> on a transcriber that is
  still \<open>None\<close> raises inside the \<open>try\<close> block, and so does a clipboard that refuses the
  text. \<open>gui_no_audio\<close> is the test of line 256.
\<close>

definition NONE_TRANSCRIBER :: string where
  "NONE_TRANSCRIBER =
     [CHR 0x27] @ ''NoneType'' @ [CHR 0x27] @ '' object has no attribute '' @
     [CHR 0x27] @ ''transcribe'' @ [CHR 0x27]"

definition gui_no_audio :: "bytes \<Rightarrow> bool" where
  "gui_no_audio audio_data = (length audio_data < 1000)"

definition transcribe_audio :: "world \<Rightarrow> gui \<Rightarrow> gui \<times> (error + string)" where
  "transcribe_audio w g =
     (case stop (gui_recorder g) of
        (r, notes, res) \<Rightarrow>
          let g1 = g\<lparr>gui_recorder := r, gui_trace := gui_trace g @ [RecorderStop]\<rparr> in
          (case res of
             Inl e \<Rightarrow> (g1, Inl e)
           | Inr audio_data \<Rightarrow>
               if gui_no_audio audio_data then (g1, Inr NO_AUDIO)
               else if \<not> gui_transcriber g1 then (g1, Inr (''Error: '' @ NONE_TRANSCRIBER))
               else
                 let g2 = g1\<lparr>gui_trace := gui_trace g1 @ [Gateway audio_data]\<rparr> in
                 (case engine w audio_data of
                    Inl msg \<Rightarrow> (g2, Inr (''Error: '' @ msg))
                  | Inr t \<Rightarrow>
                      let text = strip t in
                      if gui_auto_copy g2 \<and> text \<noteq> [] then
                        let g3 = g2\<lparr>gui_trace := gui_trace g2 @ [Copy text]\<rparr> in
                        (case clipboard w text of
                           None \<Rightarrow> (g3, Inr text)
                         | Some msg \<Rightarrow> (g3, Inr (''Error: '' @ msg)))
                      else (g2, Inr text))))"

text \<open>\<open>_on_transcription_complete\<close>, lines 271-286.\<close>

definition on_transcription_complete :: "string \<Rightarrow> gui \<Rightarrow> gui" where
  "on_transcription_complete text g =
     (let g1 = g\<lparr>gui_processing := False, button_sensitive := True\<rparr> in
      if text \<noteq> [] \<and> \<not> startswith text ''Error:''
      then g1\<lparr>result_label := [CHR 0x22] @ text @ [CHR 0x22]\<rparr>
      else g1\<lparr>result_label := text\<rparr>)"

section \<open>Runs of the terminal front end\<close>

text \<open>
  What reaches the program from outside while it listens: a key goes down, a key goes up,
  or the device delivers a chunk of audio.
\<close>

datatype input = KeyPress key | KeyRelease key | Chunk bytes

text \<open>
  \<open>feed\<close> is the run in which no handler overlaps a transcription: the device opens, and
  every thread a handler starts runs \<open>_stop_recording_and_transcribe\<close> to its end before
  the next input arrives (\<open>settle\<close>).
\<close>

fun run_tasks :: "nat \<Rightarrow> world \<Rightarrow> app \<Rightarrow> app" where
  "run_tasks 0 w s = s"
| "run_tasks (Suc n) w s = run_tasks n w (fst (stop_recording_and_transcribe w s))"

definition settle :: "world \<Rightarrow> app \<Rightarrow> app" where
  "settle w s = run_tasks (started_threads s) w (s\<lparr>started_threads := 0\<rparr>)"

fun feed :: "world \<Rightarrow> input \<Rightarrow> app \<Rightarrow> app" where
  "feed w (KeyPress k) s = settle w (fst (on_key_press True k s))"
| "feed w (KeyRelease k) s = settle w (on_key_release k s)"
| "feed w (Chunk c) s = s\<lparr>recorder_of := audio_callback c (recorder_of s)\<rparr>"









text \<open>
  Runs in which handlers and tasks do overlap are written step by step. \<open>dequeue\<close>: a
  started thread begins to run. \<open>thread_begins\<close>: it runs as far as its call of the engine,
  or to its end if it makes none.
\<close>

definition dequeue :: "app \<Rightarrow> app" where
  "dequeue s = s\<lparr>started_threads := started_threads s - 1\<rparr>"

definition thread_begins :: "world \<Rightarrow> app \<Rightarrow> app \<times> task" where
  "thread_begins w s = worker_enter w (dequeue s)"

text \<open>
  \<open>quiet_world\<close>: everything loads, the engine hears \<open>hello\<close>, the clipboard and the
  console accept what they are given. \<open>tag_world\<close>: the engine raises with a message that
  holds a closing tag, and the console cannot render the error line made from it.
\<close>

definition quiet_world :: world where
  "quiet_world =
     \<lparr>loads = None, engine = (\<lambda>a. Inr ''hello''), clipboard = (\<lambda>t. None),
      renders = (\<lambda>line. True)\<rparr>"

definition tag_world :: world where
  "tag_world =
     \<lparr>loads = None, engine = (\<lambda>a. Inl ''bad [/x] tag''), clipboard = (\<lambda>t. None),
      renders = (\<lambda>line. line \<noteq> error_line ''bad [/x] tag'')\<rparr>"

text \<open>
  \<open>held_run\<close>: hold mode; Ctrl goes down, Space goes down, and the device delivers one
  chunk. \<open>blocked_run\<close>: then Space goes up, and the thread which that release started has
  reached its call of the engine and is blocked there.
\<close>

definition held_run :: app where
  "held_run =
     feed quiet_world (Chunk (replicate CHUNK_BYTES 0))
       (fst (on_key_press True Space (fst (on_key_press True Ctrl_l (app_init False True)))))"


text \<open>
  \<open>toggle_window\<close>: toggle mode; Ctrl goes down, Space goes down, the device delivers one
  chunk, a press of Space arrives with both keys held and starts a stop task, and that
  task has set \<open>_processing\<close> (line 125) but has not yet called \<open>stop\<close> (line 128).
  \<open>toggle_raced\<close>: then another press of Space arrives, the task it starts runs as far as
  its call of the engine, and the first task goes on to its end.
\<close>

definition toggle_window :: app where
  "toggle_window =
     fst (worker_begin (dequeue (fst (on_key_press True Space
       (feed quiet_world (Chunk (replicate CHUNK_BYTES 0))
         (fst (on_key_press True Space
           (fst (on_key_press True Ctrl_l (app_init True True))))))))))"

definition toggle_raced :: app where
  "toggle_raced =
     fst (worker_stop quiet_world
       (fst (thread_begins quiet_world (fst (on_key_press True Space toggle_window)))))"


definition captured :: "app \<Rightarrow> nat" where
  "captured s =
     (if is_recording (recorder_of s) then length (concat (frames (recorder_of s))) else 0)"


section \<open>Facts about the recorder\<close>

lemma length_ascii [simp]: "length (ascii cs) = length cs"
  by (simp add: ascii_def)

lemma length_u16le [simp]: "length (u16le n) = 2"
  by (simp add: u16le_def)

lemma length_u32le [simp]: "length (u32le n) = 4"
  by (simp add: u32le_def)

lemma length_wave_header [simp]: "length (wave_header c w f n) = 44"
  by (simp add: wave_header_def)

lemma wav_payload_header [simp]: "wav_payload (wave_header c w f n @ d) = d"
  by (simp add: wav_payload_def WAVE_HEADER_SIZE_def)

lemma deliver_recording:
  "is_recording r \<Longrightarrow> deliver chunks r = r\<lparr>frames := frames r @ chunks\<rparr>"
  unfolding deliver_def
  by (induction chunks arbitrary: r) (simp_all add: audio_callback_def)

lemma deliver_idle: "\<not> is_recording r \<Longrightarrow> deliver chunks r = r"
  unfolding deliver_def
  by (induction chunks arbitrary: r) (simp_all add: audio_callback_def)

lemma length_concat_uniform:
  "\<forall>f \<in> set fs. length f = F \<Longrightarrow> length (concat fs) = length fs * F"
  by (induction fs) simp_all

lemma stop_recording_result:
  "is_recording r \<Longrightarrow>
   snd (snd (stop r)) = wave_write CHANNELS SAMPLE_WIDTH SAMPLE_RATE (concat (frames r))"
  by (simp add: stop_def frames_to_wav_def Let_def)

lemma stop_recording_state:
  "is_recording r \<Longrightarrow> fst (stop r) = r\<lparr>is_recording := False, stream := False\<rparr>"
  by (simp add: stop_def Let_def)

lemma stop_recording_notes: "is_recording r \<Longrightarrow> fst (snd (stop r)) = [''stopped'']"
  by (simp add: stop_def Let_def)

lemma start_idle_state:
  "\<not> is_recording r \<Longrightarrow>
   fst (start True r) = r\<lparr>frames := [], is_recording := True, stream := True\<rparr>"
  by (simp add: start_def Let_def)

text \<open>
  Claim C5. A recorder that is capturing and holds \<open>N\<close> frames of \<open>F\<close> bytes each: whenever
  \<open>stop\<close> returns a container, its length is the header size plus \<open>N * F\<close>; it does return
  one whenever the payload fits the 32-bit size field of the header; and with no frame at
  all it returns the bare header, 44 bytes long, and raises nothing.
\<close>

theorem wav_length_of_recording:
  assumes "is_recording r" and "length (frames r) = N" and "\<forall>f \<in> set (frames r). length f = F"
  shows "(\<forall>wav. snd (snd (stop r)) = Inr wav \<longrightarrow> length wav = WAVE_HEADER_SIZE + N * F) \<and>
         (36 + N * F < 2 ^ 32 \<longrightarrow> (\<exists>wav. snd (snd (stop r)) = Inr wav)) \<and>
         snd (snd (stop (r\<lparr>frames := []\<rparr>))) =
           Inr (wave_header CHANNELS SAMPLE_WIDTH SAMPLE_RATE 0) \<and>
         length (wave_header CHANNELS SAMPLE_WIDTH SAMPLE_RATE 0) = WAVE_HEADER_SIZE"
proof -
  have len: "length (concat (frames r)) = N * F"
    using assms(2,3) length_concat_uniform by blast
  have res: "snd (snd (stop r)) =
             wave_write CHANNELS SAMPLE_WIDTH SAMPLE_RATE (concat (frames r))"
    using assms(1) by (rule stop_recording_result)
  have empty: "snd (snd (stop (r\<lparr>frames := []\<rparr>))) =
               wave_write CHANNELS SAMPLE_WIDTH SAMPLE_RATE []"
    using assms(1) by (simp add: stop_recording_result)
  show ?thesis
    using len by (auto simp: res empty wave_write_def WAVE_HEADER_SIZE_def)
qed

theorem wav_length_of_recording_witness:
  "snd (snd (stop \<lparr>frames = [[1, 2, 3], [4, 5, 6]], is_recording = True, stream = True\<rparr>)) =
     Inr (wave_header CHANNELS SAMPLE_WIDTH SAMPLE_RATE 6 @ [1, 2, 3, 4, 5, 6]) \<and>
   length (wave_header CHANNELS SAMPLE_WIDTH SAMPLE_RATE 6 @ [1, 2, 3, 4, 5, 6]) =
     WAVE_HEADER_SIZE + 2 * 3 \<and>
   snd (snd (stop \<lparr>frames = [], is_recording = True, stream = True\<rparr>)) =
     Inr (wave_header CHANNELS SAMPLE_WIDTH SAMPLE_RATE 0)"
proof -
  have six: "Suc (Suc (Suc (Suc (Suc (Suc 0))))) = 6"
    by simp
  show ?thesis
    using wav_length_of_recording
      [of "\<lparr>frames = [[1, 2, 3], [4, 5, 6]], is_recording = True, stream = True\<rparr>" 2 3]
    by (simp add: stop_def frames_to_wav_def wave_write_def Let_def WAVE_HEADER_SIZE_def six)
qed

text \<open>
  Claim C6. Take a recorder that is not capturing, whatever frames it still holds. Chunks
  the device delivers before \<open>start\<close> are dropped, \<open>start\<close> opens a fresh buffer, and the
  chunks delivered until \<open>stop\<close> are appended in delivery order: the payload of the
  container \<open>stop\<close> returns is their concatenation, and a container is returned whenever
  that payload fits the size field. Chunks delivered after \<open>stop\<close> are dropped too, so
  encoding the buffer again gives the same result.
\<close>

theorem payload_is_frames_between_start_and_stop:
  assumes "\<not> is_recording r0"
  shows "(\<forall>wav. snd (snd (stop (deliver chunks (fst (start True (deliver early r0)))))) = Inr wav
            \<longrightarrow> wav_payload wav = concat chunks) \<and>
         (36 + length (concat chunks) < 2 ^ 32 \<longrightarrow>
            (\<exists>wav. snd (snd (stop (deliver chunks (fst (start True (deliver early r0))))))
                    = Inr wav)) \<and>
         save_to_file
           (deliver late (fst (stop (deliver chunks (fst (start True (deliver early r0)))))))
           = snd (snd (stop (deliver chunks (fst (start True (deliver early r0))))))"
proof -
  let ?r2 = "fst (start True (deliver early r0))"
  have r1: "deliver early r0 = r0"
    using assms by (rule deliver_idle)
  have r2: "?r2 = r0\<lparr>frames := [], is_recording := True, stream := True\<rparr>"
    using assms by (simp add: r1 start_idle_state)
  have r3: "deliver chunks ?r2 = r0\<lparr>frames := chunks, is_recording := True, stream := True\<rparr>"
    by (simp add: r2 deliver_recording)
  have rec3: "is_recording (deliver chunks ?r2)"
    by (simp add: r3)
  have res: "snd (snd (stop (deliver chunks ?r2))) =
             wave_write CHANNELS SAMPLE_WIDTH SAMPLE_RATE (concat chunks)"
    using stop_recording_result [OF rec3] by (simp add: r3)
  have r4: "fst (stop (deliver chunks ?r2)) =
            r0\<lparr>frames := chunks, is_recording := False, stream := False\<rparr>"
    using stop_recording_state [OF rec3] by (simp add: r3)
  have late: "deliver late (fst (stop (deliver chunks ?r2))) = fst (stop (deliver chunks ?r2))"
    by (rule deliver_idle) (simp add: r4)
  have save: "save_to_file (fst (stop (deliver chunks ?r2))) =
              wave_write CHANNELS SAMPLE_WIDTH SAMPLE_RATE (concat chunks)"
    by (simp add: save_to_file_def frames_to_wav_def r4)
  show ?thesis
    unfolding late save res by (auto simp: wave_write_def)
qed

theorem payload_is_frames_between_start_and_stop_witness:
  "\<not> is_recording \<lparr>frames = [[9, 9]], is_recording = False, stream = False\<rparr> \<and>
   snd (snd (stop (deliver [[1, 2], [3], [4, 5]] (fst (start True (deliver [[7], [8]]
     \<lparr>frames = [[9, 9]], is_recording = False, stream = False\<rparr>)))))) =
     Inr (wave_header CHANNELS SAMPLE_WIDTH SAMPLE_RATE 5 @ [1, 2, 3, 4, 5]) \<and>
   wav_payload (wave_header CHANNELS SAMPLE_WIDTH SAMPLE_RATE 5 @ [1, 2, 3, 4, 5]) =
     concat [[1, 2], [3], [4, 5]] \<and>
   save_to_file (deliver [[6]] (fst (stop (deliver [[1, 2], [3], [4, 5]] (fst (start True
     (deliver [[7], [8]] \<lparr>frames = [[9, 9]], is_recording = False, stream = False\<rparr>)))))))
     = Inr (wave_header CHANNELS SAMPLE_WIDTH SAMPLE_RATE 5 @ [1, 2, 3, 4, 5])"
proof -
  have five: "Suc (Suc (Suc (Suc (Suc 0)))) = 5"
    by simp
  show ?thesis
    using payload_is_frames_between_start_and_stop
      [of "\<lparr>frames = [[9, 9]], is_recording = False, stream = False\<rparr>"
          "[[1, 2], [3], [4, 5]]" "[[7], [8]]" "[[6]]"]
    by (simp add: stop_def start_def deliver_def audio_callback_def frames_to_wav_def
        save_to_file_def wave_write_def Let_def five)
qed

text \<open>
  Claim C7, as stated, fails: \<open>stop\<close> does not discard the buffer. After a recording of the
  single chunk \<open>[1, 2, 3]\<close> the recorder still holds that chunk, and \<open>save_to_file\<close> encodes
  it again into the container that \<open>stop\<close> returned.
\<close>

theorem buffer_kept_after_stop_counterexample:
  "frames (fst (stop (deliver [[1, 2, 3]] (fst (start True recorder_init))))) = [[1, 2, 3]] \<and>
   snd (snd (stop (deliver [[1, 2, 3]] (fst (start True recorder_init))))) =
     Inr (wave_header CHANNELS SAMPLE_WIDTH SAMPLE_RATE 3 @ [1, 2, 3]) \<and>
   save_to_file (fst (stop (deliver [[1, 2, 3]] (fst (start True recorder_init))))) =
     Inr (wave_header CHANNELS SAMPLE_WIDTH SAMPLE_RATE 3 @ [1, 2, 3])"
  by (simp add: stop_def start_def deliver_def audio_callback_def recorder_init_def Let_def
      save_to_file_def frames_to_wav_def wave_write_def numeral_3_eq_3)

text \<open>
  Claim C7, amended. After a \<open>stop\<close> that returned a container the buffer is kept as it
  was: \<open>save_to_file\<close> (documented as saving the last recording) encodes it into that same
  container, chunks delivered later are not appended to it, and it is replaced by an empty
  buffer only by the next \<open>start\<close>.
\<close>

theorem buffer_retained_until_next_start:
  assumes "is_recording r" and "snd (snd (stop r)) = Inr wav"
  shows "frames (fst (stop r)) = frames r \<and>
         save_to_file (fst (stop r)) = Inr wav \<and>
         deliver late (fst (stop r)) = fst (stop r) \<and>
         frames (fst (start dev (fst (stop r)))) = []"
proof -
  have st: "fst (stop r) = r\<lparr>is_recording := False, stream := False\<rparr>"
    using assms(1) by (rule stop_recording_state)
  have res: "wave_write CHANNELS SAMPLE_WIDTH SAMPLE_RATE (concat (frames r)) = Inr wav"
    using stop_recording_result [OF assms(1)] assms(2) by simp
  have late: "deliver late (fst (stop r)) = fst (stop r)"
    by (rule deliver_idle) (simp add: st)
  show ?thesis
    using res late by (simp add: st save_to_file_def frames_to_wav_def start_def Let_def)
qed

theorem buffer_retained_until_next_start_witness:
  "is_recording \<lparr>frames = [[1, 2, 3]], is_recording = True, stream = True\<rparr> \<and>
   snd (snd (stop \<lparr>frames = [[1, 2, 3]], is_recording = True, stream = True\<rparr>)) =
     Inr (wave_header CHANNELS SAMPLE_WIDTH SAMPLE_RATE 3 @ [1, 2, 3]) \<and>
   frames (fst (stop \<lparr>frames = [[1, 2, 3]], is_recording = True, stream = True\<rparr>)) =
     [[1, 2, 3]] \<and>
   save_to_file (fst (stop \<lparr>frames = [[1, 2, 3]], is_recording = True, stream = True\<rparr>)) =
     Inr (wave_header CHANNELS SAMPLE_WIDTH SAMPLE_RATE 3 @ [1, 2, 3]) \<and>
   frames (fst (start True
     (fst (stop \<lparr>frames = [[1, 2, 3]], is_recording = True, stream = True\<rparr>)))) = []"
proof -
  have res: "snd (snd (stop \<lparr>frames = [[1, 2, 3]], is_recording = True, stream = True\<rparr>)) =
             Inr (wave_header CHANNELS SAMPLE_WIDTH SAMPLE_RATE 3 @ [1, 2, 3])"
    by (simp add: stop_def frames_to_wav_def wave_write_def Let_def numeral_3_eq_3)
  show ?thesis
    using res buffer_retained_until_next_start
      [of "\<lparr>frames = [[1, 2, 3]], is_recording = True, stream = True\<rparr>" _ "[[0]]" True, OF _ res]
    by simp
qed

text \<open>
  Claim C8. \<open>stop\<close> on a recorder that is not capturing raises nothing: it returns the
  empty payload, notifies no status, and leaves every field of the recorder as it was.
\<close>

theorem stop_when_not_recording:
  "\<not> is_recording r \<Longrightarrow> stop r = (r, [], Inr [])"
  by (simp add: stop_def)

theorem stop_when_not_recording_witness:
  "\<not> is_recording \<lparr>frames = [[1, 2]], is_recording = False, stream = False\<rparr> \<and>
   stop \<lparr>frames = [[1, 2]], is_recording = False, stream = False\<rparr> =
     (\<lparr>frames = [[1, 2]], is_recording = False, stream = False\<rparr>, [], Inr [])"
  using stop_when_not_recording
    [of "\<lparr>frames = [[1, 2]], is_recording = False, stream = False\<rparr>"]
  by simp

text \<open>
  Claim C9. \<open>start\<close> on a recorder that is already capturing is a no-op, whatever the
  device would do: it raises nothing, notifies no status, and leaves the frame buffer, the
  stream and the recording flag as they were, so the capture is not restarted.
\<close>

theorem start_while_recording_is_noop:
  "is_recording r \<Longrightarrow> start dev r = (r, [], Inr ())"
  by (simp add: start_def)

theorem start_while_recording_is_noop_witness:
  "is_recording \<lparr>frames = [[1, 2]], is_recording = True, stream = True\<rparr> \<and>
   start True \<lparr>frames = [[1, 2]], is_recording = True, stream = True\<rparr> =
     (\<lparr>frames = [[1, 2]], is_recording = True, stream = True\<rparr>, [], Inr ())"
  using start_while_recording_is_noop
    [of "\<lparr>frames = [[1, 2]], is_recording = True, stream = True\<rparr>" True]
  by simp

section \<open>Facts about the front ends\<close>

lemma gateway_calls_append: "gateway_calls (xs @ ys) = gateway_calls xs @ gateway_calls ys"
  by (induction xs rule: gateway_calls.induct) simp_all

lemma recorder_starts_append:
  "recorder_starts (xs @ ys) = recorder_starts xs + recorder_starts ys"
  by (induction xs rule: recorder_starts.induct) simp_all

lemma notify_stopped [simp]: "notify [''stopped''] s = s\<lparr>recording := False\<rparr>"
  by (simp add: notify_def on_recording_status_def)

lemma notify_recording [simp]: "notify [''recording''] s = s\<lparr>recording := True\<rparr>"
  by (simp add: notify_def on_recording_status_def)

lemma notify_none [simp]: "notify [] s = s"
  by (simp add: notify_def)

lemma stop_cases:
  "stop r = (if is_recording r
             then (r\<lparr>is_recording := False, stream := False\<rparr>, [''stopped''],
                   wave_write CHANNELS SAMPLE_WIDTH SAMPLE_RATE (concat (frames r)))
             else (r, [], Inr []))"
  by (simp add: stop_def frames_to_wav_def Let_def)

text \<open>
  The states that the named runs reach.
\<close>

lemma chunk_bytes_value: "CHUNK_BYTES = 2048"
  by (simp add: CHUNK_BYTES_def CHUNK_SIZE_def CHANNELS_def SAMPLE_WIDTH_def)

lemma held_run_eq:
  "held_run =
     \<lparr>toggle_mode = False, auto_copy = True, recording = True, processing = False,
      last_transcription = [],
      recorder_of = \<lparr>frames = [replicate 2048 0], is_recording = True, stream = True\<rparr>,
      transcriber = False, ctrl_pressed = True, space_pressed = True, started_threads = 0,
      trace = [RecorderStart]\<rparr>"
  by (simp add: held_run_def on_key_press_def start_recording_def start_def audio_callback_def
      app_init_def recorder_init_def settle_def chunk_bytes_value Let_def)


lemma toggle_window_eq:
  "toggle_window =
     \<lparr>toggle_mode = True, auto_copy = True, recording = True, processing = True,
      last_transcription = [],
      recorder_of = \<lparr>frames = [replicate 2048 0], is_recording = True, stream = True\<rparr>,
      transcriber = False, ctrl_pressed = True, space_pressed = True, started_threads = 0,
      trace = [RecorderStart]\<rparr>"
  by (simp add: toggle_window_def on_key_press_def start_recording_def start_def
      audio_callback_def app_init_def recorder_init_def settle_def chunk_bytes_value
      start_thread_def dequeue_def worker_begin_def Let_def)

lemma toggle_raced_eq:
  "toggle_raced =
     \<lparr>toggle_mode = True, auto_copy = True, recording = False, processing = False,
      last_transcription = ''(no audio captured)'',
      recorder_of = \<lparr>frames = [replicate 2048 0], is_recording = False, stream = False\<rparr>,
      transcriber = True, ctrl_pressed = True, space_pressed = True, started_threads = 0,
      trace = [RecorderStart, RecorderStop,
               Gateway (wave_header CHANNELS SAMPLE_WIDTH SAMPLE_RATE 2048 @ replicate 2048 0),
               RecorderStop]\<rparr>"
  by (simp add: toggle_raced_def toggle_window_eq on_key_press_def start_thread_def
      thread_begins_def dequeue_def worker_enter_def worker_begin_def worker_stop_def
      stop_cases wave_write_def get_transcriber_def cli_has_audio_def quiet_world_def
      finish_def NO_AUDIO_def Let_def)

text \<open>
  The guard against a press during a transcription. In any state of the terminal front
  end whose processing flag is set, \<open>_start_recording\<close> changes nothing, and a key press
  leaves the recorder and the trace of calls as they were; besides updating the key flags
  it can only, in toggle mode and while \<open>_recording\<close> is still set, start a thread on
  \<open>_stop_recording_and_transcribe\<close>. In any state of the desktop front end whose processing
  flag is set, a click on the record button changes nothing.
\<close>

lemma guard_while_processing:
  assumes "processing s" and "gui_processing g"
  shows "start_recording dev s = (s, None) \<and>
         snd (on_key_press dev k s) = None \<and>
         recorder_of (fst (on_key_press dev k s)) = recorder_of s \<and>
         trace (fst (on_key_press dev k s)) = trace s \<and>
         processing (fst (on_key_press dev k s)) \<and>
         recording (fst (on_key_press dev k s)) = recording s \<and>
         last_transcription (fst (on_key_press dev k s)) = last_transcription s \<and>
         started_threads (fst (on_key_press dev k s)) =
           (if toggle_mode s \<and> recording s \<and> ctrl_pressed (fst (on_key_press dev k s)) \<and>
               space_pressed (fst (on_key_press dev k s))
            then Suc (started_threads s) else started_threads s) \<and>
         on_record_clicked dev g = (g, None)"
  using assms
  by (simp add: start_recording_def on_key_press_def on_record_clicked_def start_thread_def Let_def)

text \<open>
  Claim C1 does not hold of the terminal front end in toggle mode. The toggle branch of
  \<open>_on_key_press\<close> starts a stop task whenever \<open>_recording\<close> is set, without looking at
  \<open>_processing\<close>, and a stop task sets
  \<open>_processing\<close> before \<open>stop\<close> clears \<open>_recording\<close>. In \<open>toggle_window\<close> both flags are set.
  A press of Space there is not ignored: it starts a second stop task. That task takes the
  audio and blocks in the engine; the first task then gets the empty payload from \<open>stop\<close>,
  stores the sentinel and clears \<open>_processing\<close> while the engine call is still in flight
  (\<open>toggle_raced\<close>). The next press invokes \<open>AudioRecorder.start\<close>, and after one more chunk
  and one more press a third task is blocked in the engine as well: the trace holds two
  engine calls, and neither has returned.
\<close>

theorem toggle_press_while_processing:
  "toggle_mode toggle_window \<and> processing toggle_window \<and> recording toggle_window \<and>
   started_threads toggle_window = 0 \<and>
   started_threads (fst (on_key_press True Space toggle_window)) = 1 \<and>
   snd (thread_begins quiet_world (fst (on_key_press True Space toggle_window))) =
     Blocked (wave_header CHANNELS SAMPLE_WIDTH SAMPLE_RATE 2048 @ replicate 2048 0) \<and>
   snd (worker_stop quiet_world
     (fst (thread_begins quiet_world (fst (on_key_press True Space toggle_window))))) = Returned \<and>
   \<not> processing toggle_raced \<and>
   last_transcription toggle_raced = ''(no audio captured)'' \<and>
   gateway_calls (trace toggle_raced) =
     [wave_header CHANNELS SAMPLE_WIDTH SAMPLE_RATE 2048 @ replicate 2048 0] \<and>
   is_recording (recorder_of (fst (on_key_press True Space toggle_raced))) \<and>
   recorder_starts (trace (fst (on_key_press True Space toggle_raced))) = 2 \<and>
   thread_begins quiet_world (fst (on_key_press True Space
     (feed quiet_world (Chunk (replicate CHUNK_BYTES 0))
       (fst (on_key_press True Space toggle_raced))))) =
     (toggle_raced\<lparr>recording := False, processing := True,
        recorder_of := \<lparr>frames = [replicate 2048 0], is_recording = False, stream = False\<rparr>,
        trace := [RecorderStart, RecorderStop,
          Gateway (wave_header CHANNELS SAMPLE_WIDTH SAMPLE_RATE 2048 @ replicate 2048 0),
          RecorderStop, RecorderStart, RecorderStop,
          Gateway (wave_header CHANNELS SAMPLE_WIDTH SAMPLE_RATE 2048 @ replicate 2048 0)]\<rparr>,
      Blocked (wave_header CHANNELS SAMPLE_WIDTH SAMPLE_RATE 2048 @ replicate 2048 0))"
proof -
  have window: "toggle_mode toggle_window \<and> processing toggle_window \<and>
                recording toggle_window \<and> started_threads toggle_window = 0"
    by (simp add: toggle_window_eq)
  have started: "started_threads (fst (on_key_press True Space toggle_window)) = 1"
    by (simp add: toggle_window_eq on_key_press_def start_thread_def)
  have second: "thread_begins quiet_world (fst (on_key_press True Space toggle_window)) =
     (toggle_window\<lparr>recording := False, transcriber := True,
        recorder_of := \<lparr>frames = [replicate 2048 0], is_recording = False, stream = False\<rparr>,
        trace := [RecorderStart, RecorderStop,
          Gateway (wave_header CHANNELS SAMPLE_WIDTH SAMPLE_RATE 2048 @ replicate 2048 0)]\<rparr>,
      Blocked (wave_header CHANNELS SAMPLE_WIDTH SAMPLE_RATE 2048 @ replicate 2048 0))"
    by (simp add: toggle_window_eq on_key_press_def start_thread_def
        thread_begins_def dequeue_def worker_enter_def worker_begin_def worker_stop_def
        stop_cases wave_write_def get_transcriber_def cli_has_audio_def quiet_world_def Let_def)
  have blocked: "snd (thread_begins quiet_world (fst (on_key_press True Space toggle_window))) =
     Blocked (wave_header CHANNELS SAMPLE_WIDTH SAMPLE_RATE 2048 @ replicate 2048 0)"
    unfolding second by simp
  have first: "snd (worker_stop quiet_world
     (fst (thread_begins quiet_world (fst (on_key_press True Space toggle_window))))) = Returned"
    unfolding second
    by (simp add: toggle_window_eq worker_stop_def stop_cases cli_has_audio_def Let_def)
  have raced: "\<not> processing toggle_raced \<and>
     last_transcription toggle_raced = ''(no audio captured)'' \<and>
     gateway_calls (trace toggle_raced) =
       [wave_header CHANNELS SAMPLE_WIDTH SAMPLE_RATE 2048 @ replicate 2048 0]"
    by (simp add: toggle_raced_eq)
  have press: "fst (on_key_press True Space toggle_raced) =
     toggle_raced\<lparr>recording := True,
       recorder_of := \<lparr>frames = [], is_recording = True, stream = True\<rparr>,
       trace := trace toggle_raced @ [RecorderStart]\<rparr>"
    by (simp add: toggle_raced_eq on_key_press_def start_recording_def start_def Let_def)
  have restarted: "is_recording (recorder_of (fst (on_key_press True Space toggle_raced))) \<and>
     recorder_starts (trace (fst (on_key_press True Space toggle_raced))) = 2"
    unfolding press by (simp add: toggle_raced_eq)
  have third: "thread_begins quiet_world (fst (on_key_press True Space
     (feed quiet_world (Chunk (replicate CHUNK_BYTES 0))
       (fst (on_key_press True Space toggle_raced))))) =
     (toggle_raced\<lparr>recording := False, processing := True,
        recorder_of := \<lparr>frames = [replicate 2048 0], is_recording = False, stream = False\<rparr>,
        trace := [RecorderStart, RecorderStop,
          Gateway (wave_header CHANNELS SAMPLE_WIDTH SAMPLE_RATE 2048 @ replicate 2048 0),
          RecorderStop, RecorderStart, RecorderStop,
          Gateway (wave_header CHANNELS SAMPLE_WIDTH SAMPLE_RATE 2048 @ replicate 2048 0)]\<rparr>,
      Blocked (wave_header CHANNELS SAMPLE_WIDTH SAMPLE_RATE 2048 @ replicate 2048 0))"
    unfolding press
    by (simp add: toggle_raced_eq audio_callback_def chunk_bytes_value on_key_press_def
        start_thread_def thread_begins_def dequeue_def worker_enter_def worker_begin_def
        worker_stop_def stop_cases wave_write_def get_transcriber_def cli_has_audio_def
        quiet_world_def Let_def)
  show ?thesis
    using window started blocked first raced restarted third by blast
qed

text \<open>
  Claim C3. When the payload that \<open>stop\<close> hands back is shorter than 1000 bytes, neither
  front end calls the engine. The terminal front end sets \<open>_last_transcription\<close> to the
  sentinel and clears the processing flag; the desktop front end schedules
  \<open>_on_transcription_complete\<close> with the sentinel, which shows it, quoted, in the result
  label.
\<close>

theorem short_audio_skips_gateway:
  assumes "recording s" and "snd (snd (stop (recorder_of s))) = Inr audio" and "length audio < 1000"
    and "snd (snd (stop (gui_recorder g))) = Inr gui_audio" and "length gui_audio < 1000"
  shows "snd (stop_recording_and_transcribe w s) = None \<and>
         gateway_calls (trace (fst (stop_recording_and_transcribe w s))) = gateway_calls (trace s) \<and>
         last_transcription (fst (stop_recording_and_transcribe w s)) = ''(no audio captured)'' \<and>
         \<not> processing (fst (stop_recording_and_transcribe w s)) \<and>
         snd (transcribe_audio w g) = Inr ''(no audio captured)'' \<and>
         gateway_calls (gui_trace (fst (transcribe_audio w g))) = gateway_calls (gui_trace g) \<and>
         result_label (on_transcription_complete ''(no audio captured)'' (fst (transcribe_audio w g)))
           = [CHR 0x22] @ ''(no audio captured)'' @ [CHR 0x22]"
proof -
  obtain r ns where st: "stop (recorder_of s) = (r, ns, Inr audio)"
    using assms(2) by (metis prod.collapse)
  obtain r2 ns2 where gst: "stop (gui_recorder g) = (r2, ns2, Inr gui_audio)"
    using assms(4) by (metis prod.collapse)
  have cli: "stop_recording_and_transcribe w s =
        (finish ((notify ns (s\<lparr>processing := True, recorder_of := r,
             trace := trace s @ [RecorderStop]\<rparr>))\<lparr>last_transcription := NO_AUDIO\<rparr>), None)"
    using assms(1,3)
    by (simp add: stop_recording_and_transcribe_def worker_enter_def worker_begin_def
        worker_stop_def cli_has_audio_def st Let_def)
  have nts: "ns = [] \<or> ns = [''stopped'']"
    using st by (auto simp: stop_cases split: if_splits)
  have gui: "transcribe_audio w g =
        (g\<lparr>gui_recorder := r2, gui_trace := gui_trace g @ [RecorderStop]\<rparr>, Inr NO_AUDIO)"
    using assms(5) by (simp add: transcribe_audio_def gui_no_audio_def gst Let_def)
  show ?thesis
    using nts
    by (auto simp: cli gui finish_def gateway_calls_append NO_AUDIO_def
        on_transcription_complete_def startswith_def Let_def)
qed

theorem short_audio_skips_gateway_witness:
  "recording ((app_init False True)\<lparr>recording := True,
     recorder_of := \<lparr>frames = [[1, 2, 3]], is_recording = True, stream = True\<rparr>\<rparr>) \<and>
   length (wave_header CHANNELS SAMPLE_WIDTH SAMPLE_RATE 3 @ [1, 2, 3]) < 1000 \<and>
   last_transcription (fst (stop_recording_and_transcribe quiet_world
     ((app_init False True)\<lparr>recording := True,
       recorder_of := \<lparr>frames = [[1, 2, 3]], is_recording = True, stream = True\<rparr>\<rparr>)))
     = ''(no audio captured)'' \<and>
   snd (transcribe_audio quiet_world
     \<lparr>gui_auto_copy = True, gui_recording = False, gui_processing = True,
      gui_recorder = \<lparr>frames = [[1, 2, 3]], is_recording = True, stream = True\<rparr>,
      gui_transcriber = True, button_sensitive = False,
      result_label = [], gui_threads = 0, gui_trace = []\<rparr>) = Inr ''(no audio captured)''"
proof -
  have res: "snd (snd (stop \<lparr>frames = [[1, 2, 3]], is_recording = True, stream = True\<rparr>)) =
             Inr (wave_header CHANNELS SAMPLE_WIDTH SAMPLE_RATE 3 @ [1, 2, 3])"
    by (simp add: stop_def frames_to_wav_def wave_write_def Let_def numeral_3_eq_3)
  have len: "length (wave_header CHANNELS SAMPLE_WIDTH SAMPLE_RATE 3 @ [1, 2, 3 :: byte]) < 1000"
    by simp
  show ?thesis
    using len short_audio_skips_gateway
      [of "(app_init False True)\<lparr>recording := True,
             recorder_of := \<lparr>frames = [[1, 2, 3]], is_recording = True, stream = True\<rparr>\<rparr>"
          "wave_header CHANNELS SAMPLE_WIDTH SAMPLE_RATE 3 @ [1, 2, 3]"
          "\<lparr>gui_auto_copy = True, gui_recording = False, gui_processing = True,
            gui_recorder = \<lparr>frames = [[1, 2, 3]], is_recording = True, stream = True\<rparr>,
            gui_transcriber = True, button_sensitive = False,
            result_label = [], gui_threads = 0, gui_trace = []\<rparr>"
          "wave_header CHANNELS SAMPLE_WIDTH SAMPLE_RATE 3 @ [1, 2, 3]"
          quiet_world]
      res
    by (simp add: app_init_def)
qed

text \<open>
  Claim C4 does not hold for every failure. In \<open>held_run\<close> Space goes up and the stop task
  runs in \<open>tag_world\<close>: the engine raises with the message \<open>bad [/x] tag\<close>, the \<open>except\<close>
  clause prints it as markup, the console cannot render the closing tag, and the markup
  error leaves the task before the closing assignment. The processing flag stays set, so
  the next press of Space with Ctrl held only sets the key flag: no capture starts.
\<close>

theorem unprintable_failure_sticks:
  "snd (stop_recording_and_transcribe tag_world (dequeue (on_key_release Space held_run))) =
     Some MarkupError \<and>
   processing (feed tag_world (KeyRelease Space) held_run) \<and>
   gateway_calls (trace (feed tag_world (KeyRelease Space) held_run)) =
     [wave_header CHANNELS SAMPLE_WIDTH SAMPLE_RATE 2048 @ replicate 2048 0] \<and>
   fst (on_key_press True Space (feed tag_world (KeyRelease Space) held_run)) =
     (feed tag_world (KeyRelease Space) held_run)\<lparr>space_pressed := True\<rparr> \<and>
   \<not> is_recording (recorder_of
     (fst (on_key_press True Space (feed tag_world (KeyRelease Space) held_run)))) \<and>
   recorder_starts (trace
     (fst (on_key_press True Space (feed tag_world (KeyRelease Space) held_run)))) = 1"
proof -
  have run: "stop_recording_and_transcribe tag_world (dequeue (on_key_release Space held_run)) =
     (held_run\<lparr>recording := False, processing := True, transcriber := True,
        space_pressed := False,
        recorder_of := \<lparr>frames = [replicate 2048 0], is_recording = False, stream = False\<rparr>,
        trace := [RecorderStart, RecorderStop,
          Gateway (wave_header CHANNELS SAMPLE_WIDTH SAMPLE_RATE 2048 @ replicate 2048 0)]\<rparr>,
      Some MarkupError)"
    by (simp add: held_run_eq on_key_release_def start_thread_def dequeue_def
        stop_recording_and_transcribe_def worker_enter_def worker_begin_def worker_stop_def
        worker_leave_def handle_exception_def stop_cases wave_write_def get_transcriber_def
        cli_has_audio_def tag_world_def Let_def)
  have fed: "feed tag_world (KeyRelease Space) held_run =
     fst (stop_recording_and_transcribe tag_world (dequeue (on_key_release Space held_run)))"
    by (simp add: settle_def dequeue_def held_run_eq on_key_release_def start_thread_def)
  show ?thesis
    unfolding fed run
    by (simp add: held_run_eq on_key_press_def start_recording_def)
qed

text \<open>
  When the console can render the error line, the task does recover: no exception leaves
  it, both flags are clear, \<open>_last_transcription\<close> is what it was, and a following
  \<open>_start_recording\<close> with a device that opens starts a new capture on an empty buffer.
\<close>

lemma gateway_failure_recovers_when_printed:
  assumes "recording s" and "snd (snd (stop (recorder_of s))) = Inr audio" and "length audio > 1000"
    and "transcriber s \<or> loads w = None" and "engine w audio = Inl msg"
    and "renders w (error_line msg)"
  shows "snd (stop_recording_and_transcribe w s) = None \<and>
         \<not> processing (fst (stop_recording_and_transcribe w s)) \<and>
         \<not> recording (fst (stop_recording_and_transcribe w s)) \<and>
         last_transcription (fst (stop_recording_and_transcribe w s)) = last_transcription s \<and>
         trace (fst (stop_recording_and_transcribe w s)) =
           trace s @ [RecorderStop, Gateway audio, Print (error_line msg)] \<and>
         snd (start_recording True (fst (stop_recording_and_transcribe w s))) = None \<and>
         recording (fst (start_recording True (fst (stop_recording_and_transcribe w s)))) \<and>
         is_recording (recorder_of
           (fst (start_recording True (fst (stop_recording_and_transcribe w s))))) \<and>
         frames (recorder_of
           (fst (start_recording True (fst (stop_recording_and_transcribe w s))))) = []"
proof -
  have rec: "is_recording (recorder_of s)"
    using assms(2,3) by (auto simp: stop_cases split: if_splits)
  have st: "stop (recorder_of s) =
      ((recorder_of s)\<lparr>is_recording := False, stream := False\<rparr>, [''stopped''], Inr audio)"
    using rec assms(2) by (simp add: stop_cases)
  have w: "stop_recording_and_transcribe w s =
      (s\<lparr>processing := False, recording := False, transcriber := True,
         recorder_of := (recorder_of s)\<lparr>is_recording := False, stream := False\<rparr>,
         trace := trace s @ [RecorderStop, Gateway audio, Print (error_line msg)]\<rparr>, None)"
    using assms(1,3,4,5,6)
    by (auto simp: stop_recording_and_transcribe_def worker_enter_def worker_begin_def
        worker_stop_def worker_leave_def handle_exception_def st Let_def cli_has_audio_def
        get_transcriber_def finish_def split: option.splits)
  show ?thesis
    by (simp add: w start_recording_def start_def Let_def)
qed








section \<open>Facts about runs in hold mode\<close>















end
